theory Spec2Isabelle
  imports Complex_Main
begin

section \<open>Python values, exceptions and dictionaries\<close>

text \<open>
  The program is one Python module, \<^verbatim>\<open>main.py\<close>. Its numbers are Python floats; they are
  modelled as \<^typ>\<open>real\<close>, so rounding, infinities and NaN are outside the model. What the
  model keeps of Python's arithmetic is the one thing the claims depend on: a true division
  by zero raises \<^verbatim>\<open>ZeroDivisionError\<close>.

  Every \<^verbatim>\<open>raise\<close> is a value: a computation that may raise returns
  \<open>py_error + 'a\<close>, with \<open>Inl\<close> for the exception.
\<close>

datatype py_error =
  RequestError | JSONDecodeError | TypeError | KeyError | ValueError
  | AttributeError | ZeroDivisionError

definition bindE :: "py_error + 'a \<Rightarrow> ('a \<Rightarrow> py_error + 'b) \<Rightarrow> py_error + 'b" where
  "bindE m f = (case m of Inl e \<Rightarrow> Inl e | Inr x \<Rightarrow> f x)"

text \<open>
  A decoded JSON document. An object is the Python \<^verbatim>\<open>dict\<close> that \<^verbatim>\<open>json()\<close> builds, as
  its items in insertion order.
\<close>

datatype json =
  JNull | JBool bool | JNum real | JStr string
  | JArr "json list" | JObj "(string \<times> json) list"

text \<open>
  The keys of a dictionary built from JSON values: the hashable values, with Python's
  identification of \<^verbatim>\<open>True\<close> with \<^verbatim>\<open>1\<close> and \<^verbatim>\<open>False\<close> with \<^verbatim>\<open>0\<close>. A list or a dict
  is unhashable.
\<close>

datatype key = KNone | KNum real | KStr string

fun hash_key :: "json \<Rightarrow> py_error + key" where
  "hash_key JNull = Inr KNone"
| "hash_key (JBool b) = Inr (KNum (if b then 1 else 0))"
| "hash_key (JNum r) = Inr (KNum r)"
| "hash_key (JStr s) = Inr (KStr s)"
| "hash_key (JArr xs) = Inl TypeError"
| "hash_key (JObj kvs) = Inl TypeError"

type_synonym float_dict = "key \<rightharpoonup> real"

text \<open>
  The open-interest dictionary maps every symbol to a float or to \<^verbatim>\<open>None\<close>, so a key can be
  present with the value \<^verbatim>\<open>None\<close>: \<open>m s = Some None\<close>.
\<close>

type_synonym oi_dict = "string \<rightharpoonup> real option"

text \<open>\<^verbatim>\<open>d.get(s)\<close> on the open-interest dictionary: \<^verbatim>\<open>None\<close> for a missing key.\<close>

definition oi_get :: "oi_dict \<Rightarrow> string \<Rightarrow> real option" where
  "oi_get m s = (case m s of None \<Rightarrow> None | Some v \<Rightarrow> v)"

text \<open>\<^verbatim>\<open>d[s]\<close> on the open-interest dictionary, as an operand of float arithmetic.\<close>

definition oi_item :: "oi_dict \<Rightarrow> string \<Rightarrow> py_error + real" where
  "oi_item m s =
     (case m s of None \<Rightarrow> Inl KeyError | Some None \<Rightarrow> Inl TypeError | Some (Some v) \<Rightarrow> Inr v)"

text \<open>\<^verbatim>\<open>d[s]\<close> on a dictionary of floats, for a symbol \<open>s\<close>.\<close>

definition float_item :: "float_dict \<Rightarrow> string \<Rightarrow> py_error + real" where
  "float_item m s = (case m (KStr s) of None \<Rightarrow> Inl KeyError | Some v \<Rightarrow> Inr v)"

text \<open>Truth value of \<^verbatim>\<open>None\<close> or a float: \<^verbatim>\<open>None\<close> and \<^verbatim>\<open>0.0\<close> are false.\<close>

definition truthy :: "real option \<Rightarrow> bool" where
  "truthy v = (case v of None \<Rightarrow> False | Some x \<Rightarrow> x \<noteq> 0)"

text \<open>Python's \<^verbatim>\<open>a / b\<close> on floats.\<close>

definition py_truediv :: "real \<Rightarrow> real \<Rightarrow> py_error + real" where
  "py_truediv a b = (if b = 0 then Inl ZeroDivisionError else Inr (a / b))"

text \<open>
  \<^verbatim>\<open>funding_rates.get(s, 0)\<close>. \<^verbatim>\<open>get_funding_rates\<close> can return \<^verbatim>\<open>None\<close> instead of a
  dictionary (see below), and \<^verbatim>\<open>None.get\<close> raises \<^verbatim>\<open>AttributeError\<close>.
\<close>

definition funding_get :: "float_dict option \<Rightarrow> string \<Rightarrow> py_error + real" where
  "funding_get fr s =
     (case fr of
        None \<Rightarrow> Inl AttributeError
      | Some m \<Rightarrow> Inr (case m (KStr s) of None \<Rightarrow> 0 | Some v \<Rightarrow> v))"

section \<open>Configuration constants\<close>

definition CHECK_INTERVAL :: nat where "CHECK_INTERVAL = 45"
definition OI_THRESHOLD :: real where "OI_THRESHOLD = 5"
definition PRICE_THRESHOLD :: real where "PRICE_THRESHOLD = 1.2"

section \<open>The detection loop of \<^verbatim>\<open>main\<close> (lines 112 to 135)\<close>

text \<open>
  An embed is the dictionary appended to \<^verbatim>\<open>embeds\<close>. The title is the symbol between two
  fixed pieces of text, the direction label is one of three fixed strings, and the three
  inline fields are f-string renderings of \<^verbatim>\<open>oi_chg\<close>, \<^verbatim>\<open>prc_chg\<close> and \<^verbatim>\<open>funding\<close>. The
  record keeps the symbol, the label as a constructor, and the numbers that are rendered.
\<close>

datatype direction = Bullish | Bearish | Flat

record embed =
  e_symbol :: string
  e_color :: nat
  e_direction :: direction
  e_oi_chg :: real
  e_prc_chg :: real
  e_funding :: real

definition direction_of :: "real \<Rightarrow> direction" where
  "direction_of prc_chg =
     (if prc_chg > 0.3 then Bullish else if prc_chg < - 0.3 then Bearish else Flat)"

definition color_of :: "real \<Rightarrow> nat" where
  "color_of prc_chg =
     (if prc_chg > 0.3 then 0x00FF00 else if prc_chg < - 0.3 then 0xFF0000 else 0xFFFF00)"

definition make_embed :: "string \<Rightarrow> real \<Rightarrow> real \<Rightarrow> real \<Rightarrow> embed" where
  "make_embed s oi_chg prc_chg funding =
     \<lparr>e_symbol = s, e_color = color_of prc_chg, e_direction = direction_of prc_chg,
      e_oi_chg = oi_chg, e_prc_chg = prc_chg, e_funding = funding\<rparr>"

text \<open>The dictionaries that the detection loop reads.\<close>

record cycle_data =
  prev_prices :: float_dict
  curr_prices :: float_dict
  prev_oi :: oi_dict
  curr_oi :: oi_dict
  funding_rates :: "float_dict option"

text \<open>The test of line 114: the symbol is skipped with \<^verbatim>\<open>continue\<close> when it holds.\<close>

definition skipped :: "cycle_data \<Rightarrow> string \<Rightarrow> bool" where
  "skipped d s \<longleftrightarrow>
     prev_prices d (KStr s) = None \<or> curr_prices d (KStr s) = None
     \<or> \<not> truthy (oi_get (prev_oi d) s) \<or> \<not> truthy (oi_get (curr_oi d) s)"

text \<open>Line 117: \<^verbatim>\<open>(curr_oi[s] - prev_oi[s]) / prev_oi[s] * 100\<close>.\<close>

definition oi_chg_of :: "cycle_data \<Rightarrow> string \<Rightarrow> py_error + real" where
  "oi_chg_of d s =
     bindE (oi_item (curr_oi d) s) (\<lambda>c.
     bindE (oi_item (prev_oi d) s) (\<lambda>p.
     bindE (oi_item (prev_oi d) s) (\<lambda>p'.
     bindE (py_truediv (c - p) p') (\<lambda>q. Inr (q * 100)))))"

text \<open>Line 118: \<^verbatim>\<open>(curr_prices[s] - prev_prices[s]) / prev_prices[s] * 100\<close>.\<close>

definition prc_chg_of :: "cycle_data \<Rightarrow> string \<Rightarrow> py_error + real" where
  "prc_chg_of d s =
     bindE (float_item (curr_prices d) s) (\<lambda>c.
     bindE (float_item (prev_prices d) s) (\<lambda>p.
     bindE (float_item (prev_prices d) s) (\<lambda>p'.
     bindE (py_truediv (c - p) p') (\<lambda>q. Inr (q * 100)))))"

text \<open>
  One pass through the body of the \<^verbatim>\<open>for\<close> loop: \<open>Inr None\<close> when nothing is appended,
  \<open>Inr (Some e)\<close> when \<open>e\<close> is appended, \<open>Inl\<close> when the body raises.
\<close>

definition loop_body :: "cycle_data \<Rightarrow> string \<Rightarrow> py_error + embed option" where
  "loop_body d s =
     (if skipped d s then Inr None
      else
        bindE (oi_chg_of d s) (\<lambda>oi_chg.
        bindE (prc_chg_of d s) (\<lambda>prc_chg.
        bindE (funding_get (funding_rates d) s) (\<lambda>funding.
        if oi_chg > OI_THRESHOLD \<and> \<bar>prc_chg\<bar> < PRICE_THRESHOLD
        then Inr (Some (make_embed s oi_chg prc_chg funding))
        else Inr None))))"

fun detect_loop :: "cycle_data \<Rightarrow> string list \<Rightarrow> embed list \<Rightarrow> py_error + embed list" where
  "detect_loop d [] embeds = Inr embeds"
| "detect_loop d (s # ss) embeds =
     (case loop_body d s of
        Inl e \<Rightarrow> Inl e
      | Inr None \<Rightarrow> detect_loop d ss embeds
      | Inr (Some e) \<Rightarrow> detect_loop d ss (embeds @ [e]))"

text \<open>Lines 112 to 135: the loop started on the empty list.\<close>

definition detect :: "cycle_data \<Rightarrow> string list \<Rightarrow> py_error + embed list" where
  "detect d symbols = detect_loop d symbols []"

section \<open>HTTP responses and their JSON payloads\<close>

text \<open>
  The outcome of one GET: the call raises (no connection, timeout), or a response arrives
  with a status code and a body. The body is \<open>None\<close> when decoding it with \<^verbatim>\<open>json()\<close>
  raises, and the decoded document otherwise.
\<close>

datatype http_result = NetworkError | Response int "json option"

definition py_json :: "json option \<Rightarrow> py_error + json" where
  "py_json body = (case body of None \<Rightarrow> Inl JSONDecodeError | Some j \<Rightarrow> Inr j)"

text \<open>\<^verbatim>\<open>item[k]\<close> for a string \<open>k\<close>: only a dict can be indexed by a string.\<close>

fun py_getitem :: "json \<Rightarrow> string \<Rightarrow> py_error + json" where
  "py_getitem (JObj kvs) k = (case map_of kvs k of None \<Rightarrow> Inl KeyError | Some v \<Rightarrow> Inr v)"
| "py_getitem j k = Inl TypeError"

text \<open>\<^verbatim>\<open>for item in j\<close>: a list gives its elements, a dict its keys, a string its characters.\<close>

fun py_iter :: "json \<Rightarrow> py_error + json list" where
  "py_iter (JArr xs) = Inr xs"
| "py_iter (JObj kvs) = Inr (map (\<lambda>kv. JStr (fst kv)) kvs)"
| "py_iter (JStr s) = Inr (map (\<lambda>c. JStr [c]) s)"
| "py_iter j = Inl TypeError"

fun is_substring :: "string \<Rightarrow> string \<Rightarrow> bool" where
  "is_substring k [] = (k = [])"
| "is_substring k (c # cs) = (take (length k) (c # cs) = k \<or> is_substring k cs)"

text \<open>\<^verbatim>\<open>k in item\<close> for a string \<open>k\<close>.\<close>

fun py_contains :: "string \<Rightarrow> json \<Rightarrow> py_error + bool" where
  "py_contains k (JObj kvs) = Inr (k \<in> set (map fst kvs))"
| "py_contains k (JArr xs) = Inr (JStr k \<in> set xs)"
| "py_contains k (JStr s) = Inr (is_substring k s)"
| "py_contains k j = Inl TypeError"

text \<open>
  \<^verbatim>\<open>float(x)\<close>. Parsing a string is Python's own; it is the parameter \<open>pf\<close>, which returns
  \<open>None\<close> where \<^verbatim>\<open>float\<close> raises \<^verbatim>\<open>ValueError\<close>.
\<close>

fun py_float :: "(string \<Rightarrow> real option) \<Rightarrow> json \<Rightarrow> py_error + real" where
  "py_float pf (JNum r) = Inr r"
| "py_float pf (JBool b) = Inr (if b then 1 else 0)"
| "py_float pf (JStr s) = (case pf s of None \<Rightarrow> Inl ValueError | Some r \<Rightarrow> Inr r)"
| "py_float pf j = Inl TypeError"

text \<open>
  A dict comprehension over \<open>items\<close>: \<open>f\<close> gives the entry of an item, \<open>Inr None\<close> when the
  comprehension's \<^verbatim>\<open>if\<close> filters the item out. A later entry replaces an earlier one with
  the same key; an exception in any item ends the comprehension.
\<close>

fun dict_comp ::
  "(json \<Rightarrow> py_error + (key \<times> real) option) \<Rightarrow> json list \<Rightarrow> float_dict \<Rightarrow> py_error + float_dict"
where
  "dict_comp f [] acc = Inr acc"
| "dict_comp f (item # items) acc =
     (case f item of
        Inl e \<Rightarrow> Inl e
      | Inr None \<Rightarrow> dict_comp f items acc
      | Inr (Some (k, v)) \<Rightarrow> dict_comp f items (acc(k \<mapsto> v)))"

section \<open>The bulk fetchers\<close>

text \<open>\<^verbatim>\<open>item['symbol']: float(item['price'])\<close>.\<close>

definition price_entry :: "(string \<Rightarrow> real option) \<Rightarrow> json \<Rightarrow> py_error + (key \<times> real) option" where
  "price_entry pf item =
     bindE (py_getitem item ''symbol'') (\<lambda>k.
     bindE (py_getitem item ''price'') (\<lambda>p.
     bindE (py_float pf p) (\<lambda>v.
     bindE (hash_key k) (\<lambda>hk. Inr (Some (hk, v))))))"

text \<open>
  \<^verbatim>\<open>get_all_prices\<close>, lines 47 to 51. The status code is not looked at; whatever is raised
  inside \<^verbatim>\<open>try\<close> is caught by the bare \<^verbatim>\<open>except\<close>, which returns the empty dict.
\<close>

definition get_all_prices_try :: "(string \<Rightarrow> real option) \<Rightarrow> http_result \<Rightarrow> py_error + float_dict" where
  "get_all_prices_try pf r =
     (case r of
        NetworkError \<Rightarrow> Inl RequestError
      | Response st body \<Rightarrow>
          bindE (py_json body) (\<lambda>j.
          bindE (py_iter j) (\<lambda>items. dict_comp (price_entry pf) items Map.empty)))"

definition get_all_prices :: "(string \<Rightarrow> real option) \<Rightarrow> http_result \<Rightarrow> float_dict" where
  "get_all_prices pf r = (case get_all_prices_try pf r of Inl e \<Rightarrow> Map.empty | Inr m \<Rightarrow> m)"

text \<open>
  \<^verbatim>\<open>item['symbol']: float(item['lastFundingRate'])\<close>, for the items that pass
  \<^verbatim>\<open>if 'lastFundingRate' in item\<close>.
\<close>

definition funding_entry :: "(string \<Rightarrow> real option) \<Rightarrow> json \<Rightarrow> py_error + (key \<times> real) option" where
  "funding_entry pf item =
     bindE (py_contains ''lastFundingRate'' item) (\<lambda>b.
     if \<not> b then Inr None
     else
       bindE (py_getitem item ''symbol'') (\<lambda>k.
       bindE (py_getitem item ''lastFundingRate'') (\<lambda>p.
       bindE (py_float pf p) (\<lambda>v.
       bindE (hash_key k) (\<lambda>hk. Inr (Some (hk, v)))))))"

text \<open>
  \<^verbatim>\<open>get_funding_rates\<close>, lines 53 to 59. The result is \<open>Some m\<close> for a dict \<open>m\<close> and \<open>None\<close>
  for Python's \<^verbatim>\<open>None\<close>: when the status code is not 200 nothing is raised, the \<^verbatim>\<open>if\<close> has
  no \<^verbatim>\<open>else\<close>, and the function ends without a \<^verbatim>\<open>return\<close>.
\<close>

definition get_funding_rates_try ::
  "(string \<Rightarrow> real option) \<Rightarrow> http_result \<Rightarrow> py_error + float_dict option"
where
  "get_funding_rates_try pf r =
     (case r of
        NetworkError \<Rightarrow> Inl RequestError
      | Response st body \<Rightarrow>
          if st = 200 then
            bindE (py_json body) (\<lambda>j.
            bindE (py_iter j) (\<lambda>items.
            bindE (dict_comp (funding_entry pf) items Map.empty) (\<lambda>m. Inr (Some m))))
          else Inr None)"

definition get_funding_rates :: "(string \<Rightarrow> real option) \<Rightarrow> http_result \<Rightarrow> float_dict option" where
  "get_funding_rates pf r =
     (case get_funding_rates_try pf r of Inl e \<Rightarrow> Some Map.empty | Inr res \<Rightarrow> res)"

section \<open>The open-interest collector\<close>

text \<open>
  \<^verbatim>\<open>fetch_open_interest\<close>, lines 61 to 70, given the outcome \<open>r\<close> of its GET. The bare
  \<^verbatim>\<open>except: pass\<close> falls through to \<^verbatim>\<open>return symbol, None\<close>, and so does a status code
  other than 200.
\<close>

definition fetch_open_interest ::
  "(string \<Rightarrow> real option) \<Rightarrow> http_result \<Rightarrow> string \<Rightarrow> string \<times> real option"
where
  "fetch_open_interest pf r symbol =
     (case r of
        NetworkError \<Rightarrow> (symbol, None)
      | Response st body \<Rightarrow>
          if st = 200 then
            (case bindE (py_json body) (\<lambda>data.
                  bindE (py_getitem data ''openInterest'') (py_float pf)) of
               Inl e \<Rightarrow> (symbol, None)
             | Inr v \<Rightarrow> (symbol, Some v))
          else (symbol, None))"

text \<open>
  \<^verbatim>\<open>get_all_open_interest\<close>, lines 72 to 77. One task per position of \<open>symbols\<close>; \<open>net i s\<close>
  is the outcome of the GET that task \<open>i\<close> issues for symbol \<open>s\<close>. \<^verbatim>\<open>gather\<close> returns the
  results in task order, and \<^verbatim>\<open>dict\<close> keeps the last pair of each key.
\<close>

definition gather_results ::
  "(string \<Rightarrow> real option) \<Rightarrow> (nat \<Rightarrow> string \<Rightarrow> http_result) \<Rightarrow> string list
   \<Rightarrow> (string \<times> real option) list"
where
  "gather_results pf net symbols =
     map (\<lambda>(i, s). fetch_open_interest pf (net i s) s) (enumerate 0 symbols)"

definition py_dict :: "('k \<times> 'v) list \<Rightarrow> 'k \<rightharpoonup> 'v" where
  "py_dict kvs = map_of (rev kvs)"

definition get_all_open_interest ::
  "(string \<Rightarrow> real option) \<Rightarrow> (nat \<Rightarrow> string \<Rightarrow> http_result) \<Rightarrow> string list \<Rightarrow> oi_dict"
where
  "get_all_open_interest pf net symbols = py_dict (gather_results pf net symbols)"

text \<open>
  The tasks as coroutines. Between two suspension points a task is at \<^verbatim>\<open>async with
  semaphore\<close> (not yet inside), inside the block with its request outstanding, or returned.
  The semaphore is created once per call with the value 15 and shared by all tasks. Resuming
  task \<open>i\<close> lets it enter the block if the semaphore's value is positive (the value drops by
  one) and leaves it waiting otherwise; resuming a task inside the block completes its
  request and leaves the block (the value rises by one). A schedule is the list of tasks the
  event loop resumes, in order.
\<close>

datatype task_pc = AtSemaphore | InFlight | Returned

record gather_state =
  sem_value :: nat
  pcs :: "task_pc list"

definition gather_init :: "string list \<Rightarrow> gather_state" where
  "gather_init symbols = \<lparr>sem_value = 15, pcs = map (\<lambda>s. AtSemaphore) symbols\<rparr>"

definition resume :: "nat \<Rightarrow> gather_state \<Rightarrow> gather_state" where
  "resume i st =
     (if i < length (pcs st) then
        (case pcs st ! i of
           AtSemaphore \<Rightarrow>
             if sem_value st > 0
             then st\<lparr>sem_value := sem_value st - 1, pcs := (pcs st)[i := InFlight]\<rparr>
             else st
         | InFlight \<Rightarrow> st\<lparr>sem_value := sem_value st + 1, pcs := (pcs st)[i := Returned]\<rparr>
         | Returned \<Rightarrow> st)
      else st)"

fun run_schedule :: "nat list \<Rightarrow> gather_state \<Rightarrow> gather_state" where
  "run_schedule [] st = st"
| "run_schedule (i # sched) st = run_schedule sched (resume i st)"

definition outstanding :: "gather_state \<Rightarrow> nat" where
  "outstanding st = length (filter (\<lambda>p. p = InFlight) (pcs st))"

section \<open>The history log\<close>

text \<open>
  A row of \<^verbatim>\<open>data_start\<close> (lines 101 to 104), and the CSV file as its header and its lines;
  a line is a row with the timestamp column that \<^verbatim>\<open>save_to_csv\<close> adds. The file is
  \<open>None\<close> until it exists. Writing the file is taken to succeed.
\<close>

record row =
  r_symbol :: string
  r_price :: real
  r_oi :: real
  r_funding :: real
  r_phase :: string

record csv_file =
  header :: "string list"
  lines :: "(row \<times> string) list"

text \<open>The columns of \<^verbatim>\<open>pd.DataFrame(data)\<close>: none for an empty list of rows.\<close>

definition columns :: "row list \<Rightarrow> string list" where
  "columns data = (if data = [] then [] else [''symbol'', ''price'', ''oi'', ''funding'', ''phase''])"

text \<open>\<^verbatim>\<open>save_to_csv\<close>, lines 79 to 85.\<close>

definition save_to_csv :: "row list \<Rightarrow> string \<Rightarrow> csv_file option \<Rightarrow> csv_file option" where
  "save_to_csv data timestamp file =
     (let df = map (\<lambda>r. (r, timestamp)) data in
      case file of
        None \<Rightarrow> Some \<lparr>header = columns data @ [''timestamp''], lines = df\<rparr>
      | Some f \<Rightarrow> Some (f\<lparr>lines := lines f @ df\<rparr>))"

text \<open>The filter of the comprehension of line 103: \<^verbatim>\<open>s in prev_prices and prev_oi.get(s)\<close>.\<close>

definition start_valid :: "float_dict \<Rightarrow> oi_dict \<Rightarrow> string \<Rightarrow> bool" where
  "start_valid pp po s \<longleftrightarrow> pp (KStr s) \<noteq> None \<and> truthy (oi_get po s)"

definition start_row ::
  "float_dict \<Rightarrow> oi_dict \<Rightarrow> float_dict option \<Rightarrow> string \<Rightarrow> py_error + row option"
where
  "start_row pp po fr s =
     (if start_valid pp po s then
        bindE (float_item pp s) (\<lambda>price.
        bindE (oi_item po s) (\<lambda>oi.
        bindE (funding_get fr s) (\<lambda>funding.
        Inr (Some \<lparr>r_symbol = s, r_price = price, r_oi = oi, r_funding = funding,
                   r_phase = ''start''\<rparr>))))
      else Inr None)"

fun data_start ::
  "float_dict \<Rightarrow> oi_dict \<Rightarrow> float_dict option \<Rightarrow> string list \<Rightarrow> py_error + row list"
where
  "data_start pp po fr [] = Inr []"
| "data_start pp po fr (s # ss) =
     (case start_row pp po fr s of
        Inl e \<Rightarrow> Inl e
      | Inr None \<Rightarrow> data_start pp po fr ss
      | Inr (Some r) \<Rightarrow>
          (case data_start pp po fr ss of Inl e \<Rightarrow> Inl e | Inr rows \<Rightarrow> Inr (r # rows)))"

section \<open>One cycle of \<^verbatim>\<open>main\<close>\<close>

text \<open>
  What the program does to the outside is kept in a world: the history file, and the trace
  of the other effects in the order they happen.
\<close>

datatype event =
  Started
  | Slept nat
  | Posted "string option" "embed list"
  | LogInfo nat
  | LogError py_error

record world =
  history :: "csv_file option"
  trace :: "event list"

text \<open>
  What the outside gives to one cycle: the list \<^verbatim>\<open>get_all_symbols\<close> returned, the outcome of
  every GET, the formatted clock reading, the value of \<^verbatim>\<open>DISCORD_WEBHOOK_URL\<close> (the result of
  \<^verbatim>\<open>os.getenv\<close>, possibly \<^verbatim>\<open>None\<close>) and whether the POST raises.
\<close>

record env =
  all_symbols :: "string list"
  prices_start :: http_result
  oi_start :: "nat \<Rightarrow> string \<Rightarrow> http_result"
  funding_resp :: http_result
  start_time :: string
  prices_end :: http_result
  oi_end :: "nat \<Rightarrow> string \<Rightarrow> http_result"
  webhook_url :: "string option"
  post_raises :: "py_error option"

text \<open>Lines 137 to 139: the POST, with the exception it raises if any.\<close>

definition dispatch :: "env \<Rightarrow> embed list \<Rightarrow> world \<Rightarrow> py_error option \<times> world" where
  "dispatch ev embeds w =
     (if embeds \<noteq> []
      then (post_raises ev, w\<lparr>trace := trace w @ [Posted (webhook_url ev) (take 10 embeds)]\<rparr>)
      else (None, w))"

text \<open>Lines 143 to 145: the handler of the cycle.\<close>

definition on_error :: "py_error \<Rightarrow> world \<Rightarrow> world" where
  "on_error e w = w\<lparr>trace := trace w @ [LogError e, Slept 10]\<rparr>"

text \<open>The dictionaries of the first half of the cycle, lines 94 to 96.\<close>

definition start_prices :: "(string \<Rightarrow> real option) \<Rightarrow> env \<Rightarrow> float_dict" where
  "start_prices pf ev = get_all_prices pf (prices_start ev)"

definition start_oi :: "(string \<Rightarrow> real option) \<Rightarrow> env \<Rightarrow> oi_dict" where
  "start_oi pf ev = get_all_open_interest pf (oi_start ev) (all_symbols ev)"

definition start_funding :: "(string \<Rightarrow> real option) \<Rightarrow> env \<Rightarrow> float_dict option" where
  "start_funding pf ev = get_funding_rates pf (funding_resp ev)"

text \<open>The dictionaries the detection loop reads, once lines 109 and 110 have run.\<close>

definition cycle_dicts :: "(string \<Rightarrow> real option) \<Rightarrow> env \<Rightarrow> cycle_data" where
  "cycle_dicts pf ev =
     \<lparr>prev_prices = start_prices pf ev,
      curr_prices = get_all_prices pf (prices_end ev),
      prev_oi = start_oi pf ev,
      curr_oi = get_all_open_interest pf (oi_end ev) (all_symbols ev),
      funding_rates = start_funding pf ev\<rparr>"

text \<open>The body of the \<^verbatim>\<open>while\<close> loop, lines 92 to 145.\<close>

definition cycle :: "(string \<Rightarrow> real option) \<Rightarrow> env \<Rightarrow> world \<Rightarrow> world" where
  "cycle pf ev w =
     (case data_start (start_prices pf ev) (start_oi pf ev) (start_funding pf ev) (all_symbols ev) of
        Inl e \<Rightarrow> on_error e w
      | Inr rows \<Rightarrow>
          (let w1 = w\<lparr>history := save_to_csv rows (start_time ev) (history w)\<rparr>;
               w2 = w1\<lparr>trace := trace w1 @ [Slept CHECK_INTERVAL]\<rparr>
           in case detect (cycle_dicts pf ev) (all_symbols ev) of
                Inl e \<Rightarrow> on_error e w2
              | Inr embeds \<Rightarrow>
                  (case dispatch ev embeds w2 of
                     (Some e, w3) \<Rightarrow> on_error e w3
                   | (None, w3) \<Rightarrow> w3\<lparr>trace := trace w3 @ [LogInfo (length embeds)]\<rparr>)))"

text \<open>
  The \<^verbatim>\<open>while True\<close> loop never ends; \<open>while_loop\<close> runs the cycles for which the outside
  is given, and \<^verbatim>\<open>main\<close> logs its start before the first of them.
\<close>

fun while_loop :: "(string \<Rightarrow> real option) \<Rightarrow> env list \<Rightarrow> world \<Rightarrow> world" where
  "while_loop pf [] w = w"
| "while_loop pf (ev # evs) w = while_loop pf evs (cycle pf ev w)"

definition main :: "(string \<Rightarrow> real option) \<Rightarrow> env list \<Rightarrow> world \<Rightarrow> world" where
  "main pf evs w = while_loop pf evs (w\<lparr>trace := trace w @ [Started]\<rparr>)"

text \<open>What a world shows of a run: the lines of the history log, and the payloads posted.\<close>

definition log_lines :: "csv_file option \<Rightarrow> (row \<times> string) list" where
  "log_lines file = (case file of None \<Rightarrow> [] | Some f \<Rightarrow> lines f)"

fun posted :: "event list \<Rightarrow> embed list list" where
  "posted [] = []"
| "posted (Posted url es # evs) = es # posted evs"
| "posted (ev # evs) = posted evs"

section \<open>Example inputs\<close>

text \<open>
  Two symbols: open interest of the first grows by 6 percent while its price moves by half
  a percent; open interest of the second grows by 2 percent.
\<close>

definition ex_data :: cycle_data where
  "ex_data =
     \<lparr>prev_prices = [KStr ''BTCUSDT'' \<mapsto> 100, KStr ''ETHUSDT'' \<mapsto> 50],
      curr_prices = [KStr ''BTCUSDT'' \<mapsto> 100.5, KStr ''ETHUSDT'' \<mapsto> 55],
      prev_oi = [''BTCUSDT'' \<mapsto> Some 1000, ''ETHUSDT'' \<mapsto> Some 500],
      curr_oi = [''BTCUSDT'' \<mapsto> Some 1060, ''ETHUSDT'' \<mapsto> Some 510],
      funding_rates = Some Map.empty\<rparr>"



text \<open>A second symbol whose previous open interest is 0.\<close>

definition zero_oi_data :: cycle_data where
  "zero_oi_data =
     \<lparr>prev_prices = [KStr ''BTCUSDT'' \<mapsto> 100, KStr ''NEWUSDT'' \<mapsto> 2],
      curr_prices = [KStr ''BTCUSDT'' \<mapsto> 100.5, KStr ''NEWUSDT'' \<mapsto> 2],
      prev_oi = [''BTCUSDT'' \<mapsto> Some 1000, ''NEWUSDT'' \<mapsto> Some 0],
      curr_oi = [''BTCUSDT'' \<mapsto> Some 1060, ''NEWUSDT'' \<mapsto> Some 20],
      funding_rates = Some Map.empty\<rparr>"

text \<open>
  A table for \<^verbatim>\<open>float\<close> on the strings of the examples, and the payloads of the exchange:
  the list of \<^verbatim>\<open>/ticker/price\<close> and the object of \<^verbatim>\<open>/openInterest\<close>.
\<close>

definition ex_pf :: "string \<Rightarrow> real option" where
  "ex_pf = map_of [(''100'', 100), (''100.5'', 100.5), (''50'', 50), (''55'', 55),
     (''1000'', 1000), (''1060'', 1060), (''510'', 510), (''0'', 0), (''1'', 1),
     (''0.0001'', 0.0001)]"

definition price_list :: "(string \<times> string) list \<Rightarrow> json" where
  "price_list xs = JArr (map (\<lambda>(s, p). JObj [(''symbol'', JStr s), (''price'', JStr p)]) xs)"

definition oi_payload :: "string \<Rightarrow> string \<Rightarrow> json" where
  "oi_payload s v = JObj [(''openInterest'', JStr v), (''symbol'', JStr s)]"

text \<open>
  A cycle over two symbols. The open-interest request of the second fails at the start of
  the cycle and succeeds at its end.
\<close>

definition ex_env :: env where
  "ex_env =
     \<lparr>all_symbols = [''BTCUSDT'', ''ETHUSDT''],
      prices_start = Response 200 (Some (price_list [(''BTCUSDT'', ''100''), (''ETHUSDT'', ''50'')])),
      oi_start = (\<lambda>i s. if s = ''BTCUSDT'' then Response 200 (Some (oi_payload s ''1000''))
                          else NetworkError),
      funding_resp = Response 200 (Some (JArr
         [JObj [(''symbol'', JStr ''BTCUSDT''), (''lastFundingRate'', JStr ''0.0001'')]])),
      start_time = ''2026/01/01 00:00:00'',
      prices_end = Response 200 (Some (price_list [(''BTCUSDT'', ''100.5''), (''ETHUSDT'', ''55'')])),
      oi_end = (\<lambda>i s. if s = ''BTCUSDT'' then Response 200 (Some (oi_payload s ''1060''))
                        else Response 200 (Some (oi_payload s ''510''))),
      webhook_url = Some ''https://discord.example/webhook'',
      post_raises = None\<rparr>"

definition w0 :: world where
  "w0 = \<lparr>history = None, trace = []\<rparr>"

text \<open>
  Four open-interest requests: a success, a connection failure, a status other than 200 and
  a payload without the field.
\<close>

definition ex_net :: "nat \<Rightarrow> string \<Rightarrow> http_result" where
  "ex_net i s = (if s = ''BTCUSDT'' then Response 200 (Some (oi_payload s ''1000''))
                 else if s = ''ETHUSDT'' then NetworkError
                 else if s = ''XRPUSDT'' then Response 429 (Some (oi_payload s ''1''))
                 else Response 200 (Some (JObj [(''code'', JNum (- 1121))])))"

text \<open>A cycle in which the previous price of the second symbol is 0.\<close>

definition zero_env :: env where
  "zero_env =
     \<lparr>all_symbols = [''BTCUSDT'', ''NEWUSDT''],
      prices_start = Response 200 (Some (price_list [(''BTCUSDT'', ''100''), (''NEWUSDT'', ''0'')])),
      oi_start = (\<lambda>i s. Response 200 (Some (oi_payload s ''1000''))),
      funding_resp = Response 200 (Some (JArr [])),
      start_time = ''2026/01/01 00:00:00'',
      prices_end = Response 200 (Some (price_list [(''BTCUSDT'', ''100.5''), (''NEWUSDT'', ''1'')])),
      oi_end = (\<lambda>i s. Response 200 (Some (oi_payload s ''1060''))),
      webhook_url = Some ''https://discord.example/webhook'',
      post_raises = None\<rparr>"

text \<open>The first cycle again, with a funding-rate response of status 500.\<close>

definition bad_funding_env :: env where
  "bad_funding_env =
     ex_env\<lparr>funding_resp := Response 500 (Some (JObj [(''code'', JNum (- 1000))]))\<rparr>"

section \<open>Properties of the detection loop\<close>

lemmas detect_eval =
  detect_def loop_body_def skipped_def truthy_def oi_get_def oi_chg_of_def prc_chg_of_def
  oi_item_def float_item_def py_truediv_def bindE_def OI_THRESHOLD_def PRICE_THRESHOLD_def
  funding_get_def

lemma loop_body_symbol: "loop_body d s = Inr (Some e) \<Longrightarrow> e_symbol e = s"
  by (auto simp: loop_body_def bindE_def make_embed_def split: if_splits sum.splits)

lemma loop_body_not_skipped: "loop_body d s = Inr (Some e) \<Longrightarrow> \<not> skipped d s"
  by (auto simp: loop_body_def split: if_splits)


lemma skipped_body: "skipped d s \<Longrightarrow> loop_body d s = Inr None"
  by (simp add: loop_body_def)

text \<open>
  When the loop ends normally, every pass ended normally, and the list holds the embeds of
  the passes that appended one, after those it started with.
\<close>

lemma detect_loop_Inr:
  "detect_loop d ss acc = Inr es \<Longrightarrow>
     set es = set acc \<union> {e. \<exists>s\<in>set ss. loop_body d s = Inr (Some e)}
     \<and> (\<forall>s\<in>set ss. \<exists>r. loop_body d s = Inr r)"
proof (induction ss arbitrary: acc)
  case Nil
  then show ?case by simp
next
  case (Cons s ss)
  show ?case
  proof (cases "loop_body d s")
    case (Inl e)
    with Cons.prems show ?thesis by simp
  next
    case (Inr r)
    show ?thesis
    proof (cases r)
      case None
      with Inr Cons.prems have "detect_loop d ss acc = Inr es" by simp
      from Cons.IH [OF this] Inr None show ?thesis by auto
    next
      case (Some e)
      with Inr Cons.prems have "detect_loop d ss (acc @ [e]) = Inr es" by simp
      from Cons.IH [OF this] Inr Some show ?thesis by auto
    qed
  qed
qed

lemma detect_Inr:
  "detect d ss = Inr es \<Longrightarrow>
     set es = {e. \<exists>s\<in>set ss. loop_body d s = Inr (Some e)}
     \<and> (\<forall>s\<in>set ss. \<exists>r. loop_body d s = Inr r)"
  using detect_loop_Inr [of d ss "[]" es] by (simp add: detect_def)

lemma emitted_not_skipped:
  "detect d ss = Inr es \<Longrightarrow> e \<in> set es \<Longrightarrow> \<not> skipped d (e_symbol e)"
  using detect_Inr [of d ss es] loop_body_symbol loop_body_not_skipped by fastforce

lemma detect_loop_removeAll:
  "skipped d s \<Longrightarrow> detect_loop d ss acc = detect_loop d (removeAll s ss) acc"
proof (induction ss arbitrary: acc)
  case Nil
  then show ?case by simp
next
  case (Cons t ss)
  show ?case
  proof (cases "t = s")
    case True
    with Cons show ?thesis by (simp add: skipped_body)
  next
    case False
    with Cons show ?thesis by (simp split: sum.splits option.splits)
  qed
qed

lemma oi_chg_of_valid:
  "prev_oi d s = Some (Some po) \<Longrightarrow> po \<noteq> 0 \<Longrightarrow> curr_oi d s = Some (Some co) \<Longrightarrow>
     oi_chg_of d s = Inr ((co - po) / po * 100)"
  by (simp add: oi_chg_of_def oi_item_def py_truediv_def bindE_def)

lemma prc_chg_of_valid:
  "prev_prices d (KStr s) = Some pp \<Longrightarrow> curr_prices d (KStr s) = Some cp \<Longrightarrow>
     prc_chg_of d s = (if pp = 0 then Inl ZeroDivisionError else Inr ((cp - pp) / pp * 100))"
  by (simp add: prc_chg_of_def float_item_def py_truediv_def bindE_def)

lemma not_skipped_valid:
  "prev_prices d (KStr s) = Some pp \<Longrightarrow> curr_prices d (KStr s) = Some cp \<Longrightarrow>
   prev_oi d s = Some (Some po) \<Longrightarrow> po \<noteq> 0 \<Longrightarrow> curr_oi d s = Some (Some co) \<Longrightarrow> co \<noteq> 0 \<Longrightarrow>
     \<not> skipped d s"
  by (simp add: skipped_def truthy_def oi_get_def)

text \<open>One pass of the loop for a symbol that line 114 lets through.\<close>

lemma loop_body_valid:
  assumes "prev_prices d (KStr s) = Some pp" and "curr_prices d (KStr s) = Some cp"
    and "prev_oi d s = Some (Some po)" and "po \<noteq> 0"
    and "curr_oi d s = Some (Some co)" and "co \<noteq> 0"
  shows "loop_body d s =
     (if pp = 0 then Inl ZeroDivisionError
      else bindE (funding_get (funding_rates d) s) (\<lambda>funding.
        if (co - po) / po * 100 > 5 \<and> \<bar>(cp - pp) / pp * 100\<bar> < 1.2
        then Inr (Some (make_embed s ((co - po) / po * 100) ((cp - pp) / pp * 100) funding))
        else Inr None))"
proof -
  define x where "x = (co - po) / po * 100"
  define y where "y = (cp - pp) / pp * 100"
  have nsk: "\<not> skipped d s" using assms by (rule not_skipped_valid)
  have oi: "oi_chg_of d s = Inr x"
    unfolding x_def using assms(3,4,5) by (rule oi_chg_of_valid)
  have prc: "prc_chg_of d s = (if pp = 0 then Inl ZeroDivisionError else Inr y)"
    unfolding y_def using assms(1,2) by (rule prc_chg_of_valid)
  have "loop_body d s =
     (if pp = 0 then Inl ZeroDivisionError
      else bindE (funding_get (funding_rates d) s) (\<lambda>funding.
        if x > 5 \<and> \<bar>y\<bar> < 1.2 then Inr (Some (make_embed s x y funding)) else Inr None))"
    by (simp add: loop_body_def nsk oi prc bindE_def OI_THRESHOLD_def PRICE_THRESHOLD_def)
  then show ?thesis unfolding x_def y_def .
qed






text \<open>
  Claim C3. Every emitted record is for a symbol that has a price in both price dictionaries
  and an open interest other than \<^verbatim>\<open>None\<close> in both open-interest dictionaries. A symbol that
  lacks one of the four is passed over without an exception: the loop behaves as if the
  symbol were not in the list, and no record carries its name.
\<close>

theorem record_needs_both_snapshots:
  "(\<forall>es e. detect d ss = Inr es \<longrightarrow> e \<in> set es \<longrightarrow>
       prev_prices d (KStr (e_symbol e)) \<noteq> None \<and> curr_prices d (KStr (e_symbol e)) \<noteq> None
       \<and> oi_get (prev_oi d) (e_symbol e) \<noteq> None \<and> oi_get (curr_oi d) (e_symbol e) \<noteq> None)
   \<and> (prev_prices d (KStr s) = None \<or> curr_prices d (KStr s) = None
        \<or> oi_get (prev_oi d) s = None \<or> oi_get (curr_oi d) s = None \<longrightarrow>
       loop_body d s = Inr None
       \<and> detect d (s # ss) = detect d ss
       \<and> (\<forall>es. detect d ss = Inr es \<longrightarrow> (\<forall>e\<in>set es. e_symbol e \<noteq> s)))"
proof (rule conjI)
  show "\<forall>es e. detect d ss = Inr es \<longrightarrow> e \<in> set es \<longrightarrow>
       prev_prices d (KStr (e_symbol e)) \<noteq> None \<and> curr_prices d (KStr (e_symbol e)) \<noteq> None
       \<and> oi_get (prev_oi d) (e_symbol e) \<noteq> None \<and> oi_get (curr_oi d) (e_symbol e) \<noteq> None"
  proof (intro allI impI)
    fix es e assume "detect d ss = Inr es" and "e \<in> set es"
    then have "\<not> skipped d (e_symbol e)" by (rule emitted_not_skipped)
    then show "prev_prices d (KStr (e_symbol e)) \<noteq> None \<and> curr_prices d (KStr (e_symbol e)) \<noteq> None
       \<and> oi_get (prev_oi d) (e_symbol e) \<noteq> None \<and> oi_get (curr_oi d) (e_symbol e) \<noteq> None"
      by (auto simp: skipped_def truthy_def split: option.splits)
  qed
next
  show "prev_prices d (KStr s) = None \<or> curr_prices d (KStr s) = None
        \<or> oi_get (prev_oi d) s = None \<or> oi_get (curr_oi d) s = None \<longrightarrow>
       loop_body d s = Inr None
       \<and> detect d (s # ss) = detect d ss
       \<and> (\<forall>es. detect d ss = Inr es \<longrightarrow> (\<forall>e\<in>set es. e_symbol e \<noteq> s))"
  proof (rule impI)
    assume "prev_prices d (KStr s) = None \<or> curr_prices d (KStr s) = None
        \<or> oi_get (prev_oi d) s = None \<or> oi_get (curr_oi d) s = None"
    then have sk: "skipped d s" by (auto simp: skipped_def truthy_def)
    then have body: "loop_body d s = Inr None" by (rule skipped_body)
    then have same: "detect d (s # ss) = detect d ss" by (simp add: detect_def)
    have "\<forall>es. detect d ss = Inr es \<longrightarrow> (\<forall>e\<in>set es. e_symbol e \<noteq> s)"
      using sk emitted_not_skipped by blast
    with body same show "loop_body d s = Inr None
       \<and> detect d (s # ss) = detect d ss
       \<and> (\<forall>es. detect d ss = Inr es \<longrightarrow> (\<forall>e\<in>set es. e_symbol e \<noteq> s))" by blast
  qed
qed

theorem record_needs_both_snapshots_witness:
  "detect ex_data [''BTCUSDT'', ''ETHUSDT''] = Inr [make_embed ''BTCUSDT'' 6 0.5 0]
   \<and> prev_prices ex_data (KStr ''BTCUSDT'') \<noteq> None
   \<and> oi_get (curr_oi ex_data) ''BTCUSDT'' \<noteq> None
   \<and> prev_prices ex_data (KStr ''XRPUSDT'') = None
   \<and> loop_body ex_data ''XRPUSDT'' = Inr None
   \<and> detect ex_data [''XRPUSDT'', ''BTCUSDT'', ''ETHUSDT''] = Inr [make_embed ''BTCUSDT'' 6 0.5 0]"
proof -
  have run: "detect ex_data [''BTCUSDT'', ''ETHUSDT''] = Inr [make_embed ''BTCUSDT'' 6 0.5 0]"
    by (simp add: detect_eval ex_data_def)
  have sym: "e_symbol (make_embed ''BTCUSDT'' 6 0.5 0) = ''BTCUSDT''"
    by (simp add: make_embed_def)
  have missing: "prev_prices ex_data (KStr ''XRPUSDT'') = None"
    by (simp add: ex_data_def)
  note inst = record_needs_both_snapshots [of ex_data "[''BTCUSDT'', ''ETHUSDT'']" "''XRPUSDT''"]
  from inst run sym
  have "prev_prices ex_data (KStr ''BTCUSDT'') \<noteq> None
        \<and> oi_get (curr_oi ex_data) ''BTCUSDT'' \<noteq> None"
    by (metis list.set_intros(1))
  moreover from inst missing
  have "loop_body ex_data ''XRPUSDT'' = Inr None
        \<and> detect ex_data [''XRPUSDT'', ''BTCUSDT'', ''ETHUSDT'']
            = detect ex_data [''BTCUSDT'', ''ETHUSDT'']"
    by blast
  ultimately show ?thesis using run missing by simp
qed

text \<open>
  Claim C4. A symbol whose previous open interest is exactly 0 raises nothing: its pass
  through the loop appends nothing, the loop gives the result it gives on the list without
  the symbol, so every other symbol is processed as before, and no record carries its name.
\<close>

theorem zero_prev_oi_skipped:
  assumes "oi_get (prev_oi d) s = Some 0"
  shows "loop_body d s = Inr None
         \<and> detect d ss = detect d (removeAll s ss)
         \<and> (\<forall>es. detect d ss = Inr es \<longrightarrow> (\<forall>e\<in>set es. e_symbol e \<noteq> s))"
proof -
  have sk: "skipped d s" using assms by (simp add: skipped_def truthy_def)
  show ?thesis
  proof (intro conjI allI impI ballI)
    show "loop_body d s = Inr None" using sk by (rule skipped_body)
    show "detect d ss = detect d (removeAll s ss)"
      unfolding detect_def using sk by (rule detect_loop_removeAll)
  next
    fix es e assume "detect d ss = Inr es" "e \<in> set es"
    then have "\<not> skipped d (e_symbol e)" by (rule emitted_not_skipped)
    with sk show "e_symbol e \<noteq> s" by auto
  qed
qed

theorem zero_prev_oi_skipped_witness:
  "oi_get (prev_oi zero_oi_data) ''NEWUSDT'' = Some 0
   \<and> loop_body zero_oi_data ''NEWUSDT'' = Inr None
   \<and> detect zero_oi_data [''NEWUSDT'', ''BTCUSDT''] = Inr [make_embed ''BTCUSDT'' 6 0.5 0]
   \<and> detect zero_oi_data [''BTCUSDT''] = Inr [make_embed ''BTCUSDT'' 6 0.5 0]"
proof -
  have h: "oi_get (prev_oi zero_oi_data) ''NEWUSDT'' = Some 0"
    by (simp add: oi_get_def zero_oi_data_def)
  have run: "detect zero_oi_data [''BTCUSDT''] = Inr [make_embed ''BTCUSDT'' 6 0.5 0]"
    by (simp add: detect_eval zero_oi_data_def)
  from zero_prev_oi_skipped [OF h, of "[''NEWUSDT'', ''BTCUSDT'']"] h run show ?thesis by simp
qed

text \<open>With a funding dictionary at hand, the only exception of the loop is the division.\<close>

lemma loop_body_errors:
  "funding_rates d = Some fr \<Longrightarrow> loop_body d s = Inl e \<Longrightarrow> e = ZeroDivisionError"
  by (auto simp: loop_body_def skipped_def truthy_def oi_get_def oi_chg_of_def prc_chg_of_def
      oi_item_def float_item_def py_truediv_def bindE_def funding_get_def
      split: if_splits option.splits sum.splits)

lemma detect_loop_errors:
  "funding_rates d = Some fr \<Longrightarrow> detect_loop d ss acc = Inl e \<Longrightarrow> e = ZeroDivisionError"
proof (induction ss arbitrary: acc)
  case Nil
  then show ?case by simp
next
  case (Cons s ss)
  then show ?case
    by (auto split: sum.splits option.splits dest: loop_body_errors)
qed

lemma detect_loop_raises:
  "s \<in> set ss \<Longrightarrow> loop_body d s = Inl e \<Longrightarrow> \<exists>e'. detect_loop d ss acc = Inl e'"
proof (induction ss arbitrary: acc)
  case Nil
  then show ?case by simp
next
  case (Cons t ss)
  then show ?case
    by (cases "loop_body d t") (auto split: option.splits)
qed

lemma detect_zero_price:
  assumes "s \<in> set ss" and "funding_rates d = Some fr"
    and "prev_prices d (KStr s) = Some 0" and "curr_prices d (KStr s) = Some cp"
    and "oi_get (prev_oi d) s = Some po" and "0 < po"
    and "oi_get (curr_oi d) s = Some co" and "0 < co"
  shows "detect d ss = Inl ZeroDivisionError"
proof -
  have po: "prev_oi d s = Some (Some po)" and co: "curr_oi d s = Some (Some co)"
    using assms(5,7) by (auto simp: oi_get_def split: option.splits)
  have "loop_body d s = Inl ZeroDivisionError"
    using loop_body_valid [OF assms(3,4) po _ co] assms(6,8) by simp
  with assms(1) obtain e where "detect_loop d ss [] = Inl e"
    using detect_loop_raises by blast
  with assms(2) show ?thesis
    unfolding detect_def using detect_loop_errors by blast
qed

section \<open>Properties of the open-interest collector\<close>

lemma filter_update_length:
  "i < length xs \<Longrightarrow>
     length (filter P (xs[i := v])) + (if P (xs ! i) then 1 else 0)
       = length (filter P xs) + (if P v then 1 else 0)"
proof (induction xs arbitrary: i)
  case Nil
  then show ?case by simp
next
  case (Cons x xs)
  then show ?case by (cases i) auto
qed

lemma resume_invariant:
  assumes "sem_value st + outstanding st = 15"
  shows "sem_value (resume i st) + outstanding (resume i st) = 15"
proof (cases "i < length (pcs st)")
  case False
  with assms show ?thesis by (simp add: resume_def)
next
  case True
  note len = filter_update_length [OF True, of "\<lambda>p. p = InFlight"]
  show ?thesis
  proof (cases "pcs st ! i")
    case AtSemaphore
    with True assms len [of InFlight] show ?thesis
      by (auto simp: resume_def outstanding_def)
  next
    case InFlight
    with True assms len [of Returned] show ?thesis
      by (auto simp: resume_def outstanding_def)
  next
    case Returned
    with True assms show ?thesis by (simp add: resume_def)
  qed
qed

lemma run_schedule_invariant:
  "sem_value st + outstanding st = 15 \<Longrightarrow>
     sem_value (run_schedule sched st) + outstanding (run_schedule sched st) = 15"
  by (induction sched arbitrary: st) (simp_all add: resume_invariant)

lemma gather_init_invariant: "sem_value (gather_init syms) + outstanding (gather_init syms) = 15"
  by (simp add: gather_init_def outstanding_def)

text \<open>
  Claim C6. Whatever the symbols and however the event loop schedules the tasks, at most 15
  of them are inside the semaphore block, with a request outstanding, at any moment.
\<close>

theorem at_most_15_outstanding:
  "outstanding (run_schedule sched (gather_init symbols)) \<le> 15"
  using run_schedule_invariant [OF gather_init_invariant, of sched symbols] by simp

lemma fetch_fst: "fst (fetch_open_interest pf r s) = s"
  by (auto simp: fetch_open_interest_def split: http_result.splits sum.splits)

lemma gather_results_eq:
  "gather_results pf net syms =
     map (\<lambda>(i, s). (s, snd (fetch_open_interest pf (net i s) s))) (enumerate 0 syms)"
  unfolding gather_results_def
  by (rule map_cong [OF refl]) (auto simp: prod_eq_iff fetch_fst)

lemma gather_keys: "map fst (gather_results pf net syms) = syms"
proof -
  have "map fst (gather_results pf net syms) = map snd (enumerate 0 syms)"
    unfolding gather_results_eq by (simp add: case_prod_unfold comp_def)
  then show ?thesis by simp
qed

lemma dom_py_dict: "dom (py_dict kvs) = set (map fst kvs)"
  by (simp add: py_dict_def dom_map_of_conv_image_fst)

lemma dom_get_all_open_interest: "dom (get_all_open_interest pf net syms) = set syms"
  by (simp add: get_all_open_interest_def dom_py_dict gather_keys)

lemma py_dict_last:
  assumes "i < length kvs" and "fst (kvs ! i) \<notin> set (map fst (drop (Suc i) kvs))"
  shows "py_dict kvs (fst (kvs ! i)) = Some (snd (kvs ! i))"
proof -
  have split: "kvs = take i kvs @ kvs ! i # drop (Suc i) kvs"
    using assms(1) by (simp add: id_take_nth_drop)
  have "py_dict kvs = map_of (rev (drop (Suc i) kvs) @ kvs ! i # rev (take i kvs))"
    unfolding py_dict_def by (subst split) simp
  moreover have "map_of (rev (drop (Suc i) kvs)) (fst (kvs ! i)) = None"
    using assms(2) by (simp add: map_of_eq_None_iff)
  ultimately show ?thesis
    by (simp add: map_add_def split: option.splits)
qed

lemma gather_nth:
  "i < length syms \<Longrightarrow>
     gather_results pf net syms ! i
       = (syms ! i, snd (fetch_open_interest pf (net i (syms ! i)) (syms ! i)))"
  by (simp add: gather_results_eq nth_enumerate_eq)

lemma result_of_last_task:
  assumes "i < length syms" and "syms ! i \<notin> set (drop (Suc i) syms)"
  shows "get_all_open_interest pf net syms (syms ! i)
           = Some (snd (fetch_open_interest pf (net i (syms ! i)) (syms ! i)))"
proof -
  let ?kvs = "gather_results pf net syms"
  have len: "i < length ?kvs" using assms(1) by (simp add: gather_results_eq)
  have "map fst (drop (Suc i) ?kvs) = drop (Suc i) syms"
    by (simp add: gather_keys drop_map [symmetric])
  with assms(2) have "fst (?kvs ! i) \<notin> set (map fst (drop (Suc i) ?kvs))"
    using assms(1) by (simp add: gather_nth)
  from py_dict_last [OF len this] assms(1) show ?thesis
    by (simp add: get_all_open_interest_def gather_nth)
qed

lemma py_dict_cong_key:
  assumes "\<forall>i. g i k = g' i k"
  shows "py_dict (map (\<lambda>(i, s). (s, g i s)) ps) k = py_dict (map (\<lambda>(i, s). (s, g' i s)) ps) k"
  unfolding py_dict_def using assms
  by (induction ps rule: rev_induct) (auto simp: case_prod_unfold)

lemma open_interest_independent:
  assumes "\<forall>i. net i s = net' i s"
  shows "get_all_open_interest pf net syms s = get_all_open_interest pf net' syms s"
  unfolding get_all_open_interest_def gather_results_eq
  by (rule py_dict_cong_key) (simp add: assms)

text \<open>
  Claim C7. The dictionary returned by the collector has an entry for every input symbol and
  for nothing else. The entry of a symbol is the result of its own request (of its last task,
  should the symbol occur twice), and it does not depend on the outcome of the requests for
  other symbols. A request that fails (no connection, a status other than 200, a body that
  is not JSON, a payload without a usable \<^verbatim>\<open>openInterest\<close>) gives \<^verbatim>\<open>None\<close> for its symbol.
\<close>

theorem collector_total_and_isolated:
  "dom (get_all_open_interest pf net syms) = set syms
   \<and> (\<forall>i < length syms. syms ! i \<notin> set (drop (Suc i) syms) \<longrightarrow>
        get_all_open_interest pf net syms (syms ! i)
          = Some (snd (fetch_open_interest pf (net i (syms ! i)) (syms ! i))))
   \<and> ((\<forall>i. net i s = net' i s) \<longrightarrow>
        get_all_open_interest pf net syms s = get_all_open_interest pf net' syms s)
   \<and> fetch_open_interest pf NetworkError s = (s, None)
   \<and> (st \<noteq> 200 \<longrightarrow> fetch_open_interest pf (Response st body) s = (s, None))
   \<and> fetch_open_interest pf (Response 200 None) s = (s, None)
   \<and> (bindE (py_getitem j ''openInterest'') (py_float pf) = Inl e \<longrightarrow>
        fetch_open_interest pf (Response 200 (Some j)) s = (s, None))"
proof (intro conjI allI impI)
  show "dom (get_all_open_interest pf net syms) = set syms"
    by (rule dom_get_all_open_interest)
next
  fix i assume "i < length syms" "syms ! i \<notin> set (drop (Suc i) syms)"
  then show "get_all_open_interest pf net syms (syms ! i)
          = Some (snd (fetch_open_interest pf (net i (syms ! i)) (syms ! i)))"
    by (rule result_of_last_task)
next
  assume "\<forall>i. net i s = net' i s"
  then show "get_all_open_interest pf net syms s = get_all_open_interest pf net' syms s"
    by (rule open_interest_independent)
next
  show "fetch_open_interest pf NetworkError s = (s, None)"
    by (simp add: fetch_open_interest_def)
next
  assume "st \<noteq> 200"
  then show "fetch_open_interest pf (Response st body) s = (s, None)"
    by (simp add: fetch_open_interest_def)
next
  show "fetch_open_interest pf (Response 200 None) s = (s, None)"
    by (simp add: fetch_open_interest_def py_json_def bindE_def)
next
  assume "bindE (py_getitem j ''openInterest'') (py_float pf) = Inl e"
  then show "fetch_open_interest pf (Response 200 (Some j)) s = (s, None)"
    by (simp add: fetch_open_interest_def py_json_def bindE_def)
qed

theorem collector_total_and_isolated_witness:
  "dom (get_all_open_interest ex_pf ex_net [''BTCUSDT'', ''ETHUSDT'', ''XRPUSDT'', ''ADAUSDT''])
     = {''BTCUSDT'', ''ETHUSDT'', ''XRPUSDT'', ''ADAUSDT''}
   \<and> get_all_open_interest ex_pf ex_net [''BTCUSDT'', ''ETHUSDT'', ''XRPUSDT'', ''ADAUSDT''] ''BTCUSDT''
       = Some (Some 1000)
   \<and> get_all_open_interest ex_pf ex_net [''BTCUSDT'', ''ETHUSDT'', ''XRPUSDT'', ''ADAUSDT''] ''ETHUSDT''
       = Some None
   \<and> get_all_open_interest ex_pf ex_net [''BTCUSDT'', ''ETHUSDT'', ''XRPUSDT'', ''ADAUSDT''] ''XRPUSDT''
       = Some None
   \<and> get_all_open_interest ex_pf ex_net [''BTCUSDT'', ''ETHUSDT'', ''XRPUSDT'', ''ADAUSDT''] ''ADAUSDT''
       = Some None"
proof -
  let ?syms = "[''BTCUSDT'', ''ETHUSDT'', ''XRPUSDT'', ''ADAUSDT'']"
  have f0: "fetch_open_interest ex_pf (ex_net 0 ''BTCUSDT'') ''BTCUSDT'' = (''BTCUSDT'', Some 1000)"
    by (simp add: fetch_open_interest_def ex_net_def oi_payload_def ex_pf_def py_json_def bindE_def)
  have f1: "fetch_open_interest ex_pf (ex_net 1 ''ETHUSDT'') ''ETHUSDT'' = (''ETHUSDT'', None)"
    using collector_total_and_isolated [where pf = ex_pf and s = "''ETHUSDT''"] by (simp add: ex_net_def)
  have f2: "fetch_open_interest ex_pf (ex_net 2 ''XRPUSDT'') ''XRPUSDT'' = (''XRPUSDT'', None)"
    using collector_total_and_isolated [where pf = ex_pf and s = "''XRPUSDT''" and st = 429
        and body = "Some (oi_payload ''XRPUSDT'' ''1'')"]
    by (simp add: ex_net_def)
  have f3: "fetch_open_interest ex_pf (ex_net 3 ''ADAUSDT'') ''ADAUSDT'' = (''ADAUSDT'', None)"
    using collector_total_and_isolated [where pf = ex_pf and s = "''ADAUSDT''"
        and j = "JObj [(''code'', JNum (- 1121))]" and e = KeyError]
    by (simp add: ex_net_def bindE_def)
  note inst = collector_total_and_isolated [where pf = ex_pf and net = ex_net and syms = ?syms]
  from inst have d: "dom (get_all_open_interest ex_pf ex_net ?syms) = set ?syms"
    and at: "\<forall>i < length ?syms. ?syms ! i \<notin> set (drop (Suc i) ?syms) \<longrightarrow>
        get_all_open_interest ex_pf ex_net ?syms (?syms ! i)
          = Some (snd (fetch_open_interest ex_pf (ex_net i (?syms ! i)) (?syms ! i)))"
    by blast+
  from at [rule_format, of 0] f0
  have r0: "get_all_open_interest ex_pf ex_net ?syms ''BTCUSDT'' = Some (Some 1000)" by simp
  from at [rule_format, of 1] f1
  have r1: "get_all_open_interest ex_pf ex_net ?syms ''ETHUSDT'' = Some None" by simp
  from at [rule_format, of 2] f2
  have r2: "get_all_open_interest ex_pf ex_net ?syms ''XRPUSDT'' = Some None" by simp
  from at [rule_format, of 3] f3
  have r3: "get_all_open_interest ex_pf ex_net ?syms ''ADAUSDT'' = Some None" by simp
  from d r0 r1 r2 r3 show ?thesis by auto
qed

section \<open>Properties of the bulk fetchers\<close>

text \<open>What the bare \<^verbatim>\<open>except\<close> clauses catch.\<close>

lemma caught_failures:
  "get_all_prices pf NetworkError = Map.empty"
  "get_all_prices pf (Response st None) = Map.empty"
  "get_all_prices_try pf r = Inl e \<Longrightarrow> get_all_prices pf r = Map.empty"
  "get_funding_rates pf NetworkError = Some Map.empty"
  "get_funding_rates pf (Response 200 None) = Some Map.empty"
  "get_funding_rates_try pf r = Inl e \<Longrightarrow> get_funding_rates pf r = Some Map.empty"
  by (simp_all add: get_all_prices_def get_all_prices_try_def get_funding_rates_def
      get_funding_rates_try_def py_json_def bindE_def)

lemma prices_ignore_status:
  "get_all_prices pf (Response st body) = get_all_prices pf (Response 200 body)"
  by (simp add: get_all_prices_def get_all_prices_try_def)

section \<open>Properties of the cycle\<close>

lemmas fetch_eval =
  get_all_prices_def get_all_prices_try_def get_funding_rates_def get_funding_rates_try_def
  get_all_open_interest_def gather_results_def fetch_open_interest_def py_dict_def
  price_entry_def funding_entry_def py_json_def bindE_def
  start_prices_def start_oi_def start_funding_def cycle_dicts_def

lemma ex_start_prices:
  "start_prices ex_pf ex_env = [KStr ''BTCUSDT'' \<mapsto> 100, KStr ''ETHUSDT'' \<mapsto> 50]"
  by (simp add: fetch_eval ex_env_def ex_pf_def price_list_def)

lemma ex_start_oi:
  "start_oi ex_pf ex_env = [''BTCUSDT'' \<mapsto> Some 1000, ''ETHUSDT'' \<mapsto> None]"
  by (simp add: fetch_eval ex_env_def ex_pf_def oi_payload_def)

lemma ex_start_funding:
  "start_funding ex_pf ex_env = Some [KStr ''BTCUSDT'' \<mapsto> 0.0001]"
  by (simp add: fetch_eval ex_env_def ex_pf_def)

lemma ex_dicts:
  "cycle_dicts ex_pf ex_env =
     \<lparr>prev_prices = [KStr ''BTCUSDT'' \<mapsto> 100, KStr ''ETHUSDT'' \<mapsto> 50],
      curr_prices = [KStr ''BTCUSDT'' \<mapsto> 100.5, KStr ''ETHUSDT'' \<mapsto> 55],
      prev_oi = [''BTCUSDT'' \<mapsto> Some 1000, ''ETHUSDT'' \<mapsto> None],
      curr_oi = [''BTCUSDT'' \<mapsto> Some 1060, ''ETHUSDT'' \<mapsto> Some 510],
      funding_rates = Some [KStr ''BTCUSDT'' \<mapsto> 0.0001]\<rparr>"
  by (simp add: fetch_eval ex_env_def ex_pf_def price_list_def oi_payload_def)

lemma ex_data_start:
  "data_start (start_prices ex_pf ex_env) (start_oi ex_pf ex_env) (start_funding ex_pf ex_env)
     (all_symbols ex_env)
   = Inr [\<lparr>r_symbol = ''BTCUSDT'', r_price = 100, r_oi = 1000, r_funding = 0.0001,
           r_phase = ''start''\<rparr>]"
  unfolding ex_start_prices ex_start_oi ex_start_funding
  by (simp add: ex_env_def start_row_def start_valid_def truthy_def oi_get_def float_item_def
      oi_item_def funding_get_def bindE_def)

lemma ex_detect:
  "detect (cycle_dicts ex_pf ex_env) (all_symbols ex_env) = Inr [make_embed ''BTCUSDT'' 6 0.5 0.0001]"
  unfolding ex_dicts by (simp add: detect_eval ex_env_def)

lemma ex_cycle:
  "cycle ex_pf ex_env w0 =
     \<lparr>history = Some \<lparr>header = [''symbol'', ''price'', ''oi'', ''funding'', ''phase'', ''timestamp''],
         lines = [(\<lparr>r_symbol = ''BTCUSDT'', r_price = 100, r_oi = 1000, r_funding = 0.0001,
           r_phase = ''start''\<rparr>, ''2026/01/01 00:00:00'')]\<rparr>,
      trace = [Slept 45, Posted (Some ''https://discord.example/webhook'') [make_embed ''BTCUSDT'' 6 0.5 0.0001], LogInfo 1]\<rparr>"
  unfolding cycle_def ex_data_start ex_detect
  by (simp add: dispatch_def save_to_csv_def columns_def w0_def ex_env_def CHECK_INTERVAL_def)


lemma start_row_Some:
  "start_row pp po fr s = Inr (Some r) \<Longrightarrow>
     start_valid pp po s \<and> r_symbol r = s \<and> r_phase r = ''start''
     \<and> pp (KStr s) = Some (r_price r) \<and> oi_get po s = Some (r_oi r)
     \<and> funding_get fr s = Inr (r_funding r)"
  by (auto simp: start_row_def bindE_def float_item_def oi_item_def oi_get_def
      split: if_splits sum.splits option.splits)

lemma start_row_None: "start_row pp po fr s = Inr None \<Longrightarrow> \<not> start_valid pp po s"
  by (auto simp: start_row_def bindE_def split: if_splits sum.splits)

lemma data_start_rows:
  "data_start pp po fr ss = Inr rows \<Longrightarrow>
     map r_symbol rows = filter (start_valid pp po) ss
     \<and> (\<forall>r\<in>set rows. r_phase r = ''start''
           \<and> pp (KStr (r_symbol r)) = Some (r_price r) \<and> oi_get po (r_symbol r) = Some (r_oi r)
           \<and> funding_get fr (r_symbol r) = Inr (r_funding r))"
proof (induction ss arbitrary: rows)
  case Nil
  then show ?case by simp
next
  case (Cons s ss)
  show ?case
  proof (cases "start_row pp po fr s")
    case (Inl e)
    with Cons.prems show ?thesis by simp
  next
    case (Inr ro)
    show ?thesis
    proof (cases ro)
      case None
      with Inr Cons.prems have "data_start pp po fr ss = Inr rows" by simp
      from Cons.IH [OF this] start_row_None [of pp po fr s] Inr None show ?thesis by simp
    next
      case (Some r)
      with Inr Cons.prems obtain rest where rest: "data_start pp po fr ss = Inr rest" "rows = r # rest"
        by (auto split: sum.splits)
      from Cons.IH [OF rest(1)] start_row_Some [of pp po fr s r] Inr Some rest(2)
      show ?thesis by simp
    qed
  qed
qed

lemma cycle_history:
  "data_start (start_prices pf ev) (start_oi pf ev) (start_funding pf ev) (all_symbols ev) = Inr rows
   \<Longrightarrow> history (cycle pf ev w) = save_to_csv rows (start_time ev) (history w)"
  by (simp add: cycle_def Let_def on_error_def dispatch_def
      split: sum.splits prod.splits option.splits)

lemma log_lines_save:
  "log_lines (save_to_csv rows ts file) = log_lines file @ map (\<lambda>r. (r, ts)) rows"
  by (simp add: log_lines_def save_to_csv_def Let_def split: option.splits)

text \<open>
  Claim C5, as amended. In a cycle whose start rows are built without an exception, what the
  cycle appends to the history log is exactly these rows, each with the start timestamp: one
  row, of phase \<^verbatim>\<open>start\<close>, for every symbol of the universe that has a start price and a
  start open interest that is neither \<^verbatim>\<open>None\<close> nor 0, with that price and that open interest.
  Nothing is appended for the end snapshot.
\<close>

theorem start_snapshot_logged:
  assumes "data_start (start_prices pf ev) (start_oi pf ev) (start_funding pf ev) (all_symbols ev)
             = Inr rows"
  shows "log_lines (history (cycle pf ev w))
           = log_lines (history w) @ map (\<lambda>r. (r, start_time ev)) rows
         \<and> map r_symbol rows
             = filter (start_valid (start_prices pf ev) (start_oi pf ev)) (all_symbols ev)
         \<and> (\<forall>r\<in>set rows. r_phase r = ''start''
               \<and> start_prices pf ev (KStr (r_symbol r)) = Some (r_price r)
               \<and> oi_get (start_oi pf ev) (r_symbol r) = Some (r_oi r))"
  using data_start_rows [OF assms] cycle_history [OF assms, of w]
  by (simp add: log_lines_save)

theorem start_snapshot_logged_witness:
  "log_lines (history (cycle ex_pf ex_env w0))
     = [(\<lparr>r_symbol = ''BTCUSDT'', r_price = 100, r_oi = 1000, r_funding = 0.0001,
          r_phase = ''start''\<rparr>, ''2026/01/01 00:00:00'')]
   \<and> filter (start_valid (start_prices ex_pf ex_env) (start_oi ex_pf ex_env)) (all_symbols ex_env)
       = [''BTCUSDT'']"
  using start_snapshot_logged [OF ex_data_start, of w0]
  by (simp add: w0_def log_lines_def ex_env_def)

text \<open>
  Claim C5 as it is written fails: this cycle runs to its end, both symbols have a price and
  an open interest in the end snapshot, and the log holds the one start row and no row of
  phase \<^verbatim>\<open>end\<close>.
\<close>

theorem end_snapshot_not_logged_counterexample:
  "curr_prices (cycle_dicts ex_pf ex_env) (KStr ''BTCUSDT'') = Some 100.5
   \<and> curr_oi (cycle_dicts ex_pf ex_env) ''BTCUSDT'' = Some (Some 1060)
   \<and> curr_prices (cycle_dicts ex_pf ex_env) (KStr ''ETHUSDT'') = Some 55
   \<and> curr_oi (cycle_dicts ex_pf ex_env) ''ETHUSDT'' = Some (Some 510)
   \<and> trace (cycle ex_pf ex_env w0)
       = [Slept 45, Posted (Some ''https://discord.example/webhook'')
            [make_embed ''BTCUSDT'' 6 0.5 0.0001], LogInfo 1]
   \<and> map (\<lambda>l. (r_symbol (fst l), r_phase (fst l))) (log_lines (history (cycle ex_pf ex_env w0)))
       = [(''BTCUSDT'', ''start'')]"
  by (simp add: ex_cycle ex_dicts log_lines_def)



lemma zero_start_prices:
  "start_prices ex_pf zero_env = [KStr ''BTCUSDT'' \<mapsto> 100, KStr ''NEWUSDT'' \<mapsto> 0]"
  by (simp add: fetch_eval zero_env_def ex_pf_def price_list_def)

lemma zero_dicts:
  "cycle_dicts ex_pf zero_env =
     \<lparr>prev_prices = [KStr ''BTCUSDT'' \<mapsto> 100, KStr ''NEWUSDT'' \<mapsto> 0],
      curr_prices = [KStr ''BTCUSDT'' \<mapsto> 100.5, KStr ''NEWUSDT'' \<mapsto> 1],
      prev_oi = [''BTCUSDT'' \<mapsto> Some 1000, ''NEWUSDT'' \<mapsto> Some 1000],
      curr_oi = [''BTCUSDT'' \<mapsto> Some 1060, ''NEWUSDT'' \<mapsto> Some 1060],
      funding_rates = Some Map.empty\<rparr>"
  by (simp add: fetch_eval zero_env_def ex_pf_def price_list_def oi_payload_def)

lemma zero_data_start:
  "data_start (start_prices ex_pf zero_env) (start_oi ex_pf zero_env) (start_funding ex_pf zero_env)
     (all_symbols zero_env)
   = Inr [\<lparr>r_symbol = ''BTCUSDT'', r_price = 100, r_oi = 1000, r_funding = 0, r_phase = ''start''\<rparr>,
          \<lparr>r_symbol = ''NEWUSDT'', r_price = 0, r_oi = 1000, r_funding = 0, r_phase = ''start''\<rparr>]"
proof -
  have oi: "start_oi ex_pf zero_env = [''BTCUSDT'' \<mapsto> Some 1000, ''NEWUSDT'' \<mapsto> Some 1000]"
    by (simp add: fetch_eval zero_env_def ex_pf_def oi_payload_def)
  have fu: "start_funding ex_pf zero_env = Some Map.empty"
    by (simp add: fetch_eval zero_env_def)
  show ?thesis
    unfolding zero_start_prices oi fu
    by (simp add: zero_env_def start_row_def start_valid_def truthy_def oi_get_def float_item_def
        oi_item_def funding_get_def bindE_def)
qed

lemma start_funding_dict:
  assumes "data_start pp po fr ss = Inr rows" and "s \<in> set ss" and "start_valid pp po s"
  shows "fr \<noteq> None"
proof -
  from data_start_rows [OF assms(1)] assms(2,3)
  have "s \<in> set (map r_symbol rows)" by simp
  then obtain r where "r \<in> set rows" "r_symbol r = s" by auto
  with data_start_rows [OF assms(1)] have "funding_get fr s = Inr (r_funding r)" by auto
  then show ?thesis by (auto simp: funding_get_def split: option.splits)
qed

text \<open>
  Claim C10. Let the cycle have taken its start snapshot, and let a symbol of the universe be
  in both price dictionaries with a previous price of exactly 0 and have a positive open
  interest in both open-interest dictionaries. Then the detection loop ends with
  \<^verbatim>\<open>ZeroDivisionError\<close>; the cycle's handler logs it and sleeps 10 seconds, and between the
  45 second wait and the handler nothing happens: no POST and no completion message.
\<close>

theorem zero_prev_price_aborts_cycle:
  assumes "data_start (start_prices pf ev) (start_oi pf ev) (start_funding pf ev) (all_symbols ev)
             = Inr rows"
    and "s \<in> set (all_symbols ev)"
    and "prev_prices (cycle_dicts pf ev) (KStr s) = Some 0"
    and "curr_prices (cycle_dicts pf ev) (KStr s) = Some cp"
    and "oi_get (prev_oi (cycle_dicts pf ev)) s = Some po" and "0 < po"
    and "oi_get (curr_oi (cycle_dicts pf ev)) s = Some co" and "0 < co"
  shows "detect (cycle_dicts pf ev) (all_symbols ev) = Inl ZeroDivisionError
         \<and> cycle pf ev w
             = on_error ZeroDivisionError
                 (w\<lparr>history := save_to_csv rows (start_time ev) (history w),
                    trace := trace w @ [Slept CHECK_INTERVAL]\<rparr>)
         \<and> trace (cycle pf ev w) = trace w @ [Slept 45, LogError ZeroDivisionError, Slept 10]"
proof -
  have "start_valid (start_prices pf ev) (start_oi pf ev) s"
    using assms(3,5,6) by (simp add: start_valid_def cycle_dicts_def truthy_def)
  from start_funding_dict [OF assms(1,2) this]
  obtain fr where "funding_rates (cycle_dicts pf ev) = Some fr"
    by (auto simp: cycle_dicts_def)
  from detect_zero_price [OF assms(2) this assms(3-8)]
  have det: "detect (cycle_dicts pf ev) (all_symbols ev) = Inl ZeroDivisionError" .
  then show ?thesis
    using assms(1) by (simp add: cycle_def Let_def on_error_def CHECK_INTERVAL_def)
qed

theorem zero_prev_price_aborts_cycle_witness:
  "detect (cycle_dicts ex_pf zero_env) (all_symbols zero_env) = Inl ZeroDivisionError
   \<and> trace (cycle ex_pf zero_env w0) = [Slept 45, LogError ZeroDivisionError, Slept 10]
   \<and> posted (trace (cycle ex_pf zero_env w0)) = []"
proof -
  have s: "''NEWUSDT'' \<in> set (all_symbols zero_env)" by (simp add: zero_env_def)
  have pp: "prev_prices (cycle_dicts ex_pf zero_env) (KStr ''NEWUSDT'') = Some 0"
    and cp: "curr_prices (cycle_dicts ex_pf zero_env) (KStr ''NEWUSDT'') = Some 1"
    and po: "oi_get (prev_oi (cycle_dicts ex_pf zero_env)) ''NEWUSDT'' = Some 1000"
    and co: "oi_get (curr_oi (cycle_dicts ex_pf zero_env)) ''NEWUSDT'' = Some 1060"
    by (simp_all add: zero_dicts oi_get_def)
  from zero_prev_price_aborts_cycle [OF zero_data_start s pp cp po _ co, of w0] show ?thesis
    by (simp add: w0_def on_error_def CHECK_INTERVAL_def)
qed

text \<open>
  Claim C9 does not hold of the code. A funding-rate response with status 500 makes
  \<^verbatim>\<open>get_funding_rates\<close> return \<^verbatim>\<open>None\<close>, not the empty dict, and the cycle that receives it
  ends in its handler with \<^verbatim>\<open>AttributeError\<close> before anything is logged or compared.
\<close>

theorem funding_status_500_returns_None:
  "get_funding_rates pf (Response 500 body) = None
   \<and> cycle ex_pf bad_funding_env w0 = on_error AttributeError w0"
proof -
  have none: "get_funding_rates pf (Response 500 body) = None" for pf body
    by (simp add: get_funding_rates_def get_funding_rates_try_def)
  have "start_funding ex_pf bad_funding_env = None"
    by (simp add: start_funding_def bad_funding_env_def none)
  moreover have "start_prices ex_pf bad_funding_env = start_prices ex_pf ex_env"
    "start_oi ex_pf bad_funding_env = start_oi ex_pf ex_env"
    "all_symbols bad_funding_env = all_symbols ex_env"
    by (simp_all add: start_prices_def start_oi_def bad_funding_env_def)
  ultimately have "data_start (start_prices ex_pf bad_funding_env) (start_oi ex_pf bad_funding_env)
      (start_funding ex_pf bad_funding_env) (all_symbols bad_funding_env) = Inl AttributeError"
    unfolding ex_start_prices ex_start_oi
    by (simp add: ex_env_def start_row_def start_valid_def truthy_def oi_get_def float_item_def
        oi_item_def funding_get_def bindE_def)
  then have "cycle ex_pf bad_funding_env w0 = on_error AttributeError w0"
    by (simp add: cycle_def)
  with none show ?thesis by simp
qed

end
